theory Spec2Isabelle
  imports Main "HOL-Library.Word"
begin

section \<open>The URL preview component (SSRFPOCApp.tsx)\<close>

text \<open>
  The component \<open>App\<close> keeps a state of five fields and three handlers that write it:
  \<open>handleMakeRequest\<close> (the Preview button), \<open>makeRequest\<close> (an async function: a
  synchronous part up to \<open>await client.get(requestUrl)\<close> and a continuation that runs when
  the promise settles) and \<open>clearResults\<close> (the Clear button). \<open>setState\<close> merges the
  fields it is given into the state, which is a record update.
\<close>

subsection \<open>Strings\<close>

text \<open>
  A JavaScript string is a sequence of 16-bit code units; \<open>.length\<close> counts them and
  \<open>!s\<close> holds exactly for the empty string. Literals of the source are ASCII and written
  \<open>js ''...''\<close>.
\<close>

type_synonym jsstring = "16 word list"

definition js :: "string \<Rightarrow> jsstring" where
  "js s = map of_char s"

text \<open>
  \<open>String.prototype.trim\<close> removes leading and trailing code units that are WhiteSpace
  or LineTerminator of ECMAScript: TAB, LF, VT, FF, CR, SP, NBSP, U+1680, U+2000 to U+200A,
  U+2028, U+2029, U+202F, U+205F, U+3000 and U+FEFF.
\<close>

definition isWhiteSpace :: "16 word \<Rightarrow> bool" where
  "isWhiteSpace c =
     (c \<in> set [0x0009, 0x000A, 0x000B, 0x000C, 0x000D, 0x0020, 0x00A0, 0x1680,
               0x2028, 0x2029, 0x202F, 0x205F, 0x3000, 0xFEFF]
      \<or> (0x2000 \<le> c \<and> c \<le> 0x200A))"

definition trim :: "jsstring \<Rightarrow> jsstring" where
  "trim s = rev (dropWhile isWhiteSpace (rev (dropWhile isWhiteSpace s)))"

text \<open>
  A template literal \<open>${n}\<close> of a non-negative integer below \<open>10^21\<close> (an array length
  is) is its decimal numeral.
\<close>

definition digit :: "nat \<Rightarrow> 16 word" where
  "digit d = of_nat (48 + d)"

fun showNat :: "nat \<Rightarrow> jsstring" where
  "showNat n = (if n < 10 then [digit n] else showNat (n div 10) @ [digit (n mod 10)])"

declare showNat.simps [simp del]

subsection \<open>The component's state\<close>

record State =
  url :: jsstring
  status :: jsstring
  responseBody :: jsstring
  responseStatusCode :: "int option"
  loading :: bool

definition initialState :: State where
  "initialState =
     \<lparr> url = js '''',
       status = js ''Enter a URL to preview its content'',
       responseBody = js '''',
       responseStatusCode = None,
       loading = False \<rparr>"

text \<open>
  What the handlers read and write besides the state:
  \<^item> \<open>urlInput\<close>: \<open>this.urlInput.single()\<close>, \<open>None\<close> when no text field is mounted,
    otherwise the field's \<open>value\<close> attribute as \<open>getAttribute('value')?.toString()\<close> gives
    it (\<open>None\<close> when that is \<open>undefined\<close> or \<open>null\<close>);
  \<^item> \<open>gets\<close>: the URLs of the calls \<open>client.get(requestUrl)\<close> issued so far, oldest first.
\<close>

record App =
  state :: State
  urlInput :: "jsstring option option"
  gets :: "jsstring list"

definition initialApp :: App where
  "initialApp = \<lparr> state = initialState, urlInput = Some (Some (js '''')), gets = [] \<rparr>"

subsection \<open>What the HTTP client hands back\<close>

text \<open>
  \<open>HTTPClient\<close> and \<open>TextDecoder\<close> are not part of the component. A settled
  \<open>client.get\<close> either resolves to a response (a status code and a body, which the source
  tests for presence with \<open>if (response.body)\<close>: a byte array is truthy also when it is
  empty) or rejects with a value \<open>error\<close>, of which the source reads
  \<open>error?.toString() ?? 'Unknown error'\<close>. The decoder is a parameter
  \<open>decode\<close> of the continuation: \<open>None\<close> when \<open>decode\<close> throws.
\<close>

datatype response = Response (statusCode: int) (body: "8 word list option")

datatype error = NullishError | ErrorValue jsstring

type_synonym decoder = "8 word list \<Rightarrow> jsstring option"

subsection \<open>Handlers\<close>

definition onUrlChanged :: "jsstring \<Rightarrow> App \<Rightarrow> App" where
  "onUrlChanged text a = a\<lparr>state := (state a)\<lparr>url := text\<rparr>\<rparr>"

text \<open>
  \<open>makeRequest\<close> up to the \<open>await\<close>: the argument is \<open>None\<close> for an omitted
  \<open>url\<close>. Constructing the client and calling \<open>get\<close> are taken not to throw
  synchronously; the call is recorded in \<open>gets\<close>.
\<close>

definition makeRequest :: "jsstring option \<Rightarrow> App \<Rightarrow> App" where
  "makeRequest u a =
     (let requestUrl = (case u of Some v \<Rightarrow> v | None \<Rightarrow> trim (url (state a)))
      in if requestUrl = [] then
           a\<lparr>state := (state a)\<lparr>status := js ''Error: URL cannot be empty''\<rparr>\<rparr>
         else
           a\<lparr>state := (state a)\<lparr>loading := True,
                                 status := js ''Loading '' @ requestUrl @ js ''...'',
                                 responseBody := js '''',
                                 responseStatusCode := None\<rparr>,
             gets := gets a @ [requestUrl]\<rparr>)"

text \<open>
  \<open>makeRequest\<close> after the \<open>await\<close>: the body of the \<open>try\<close> on a response, the
  \<open>catch\<close> on a rejection. It runs on the state that is current when the promise settles.
\<close>

definition bodyTextOf :: "decoder \<Rightarrow> response \<Rightarrow> jsstring" where
  "bodyTextOf decode r =
     (case body r of
        None \<Rightarrow> js ''''
      | Some b \<Rightarrow>
          (case decode b of
             Some t \<Rightarrow> t
           | None \<Rightarrow> js ''[Binary data, '' @ showNat (length b) @ js '' bytes]''))"

definition makeRequestSettled :: "decoder \<Rightarrow> error + response \<Rightarrow> App \<Rightarrow> App" where
  "makeRequestSettled decode outcome a =
     (case outcome of
        Inr r \<Rightarrow>
          (let bodyText = bodyTextOf decode r
           in a\<lparr>state := (state a)\<lparr>loading := False,
                                    status := js ''Content loaded successfully'',
                                    responseStatusCode := Some (statusCode r),
                                    responseBody := (if length bodyText > 0 then bodyText
                                                     else js ''[No content]'')\<rparr>\<rparr>)
      | Inl e \<Rightarrow>
          a\<lparr>state := (state a)\<lparr>loading := False,
                                status := js ''Error: '' @ (case e of ErrorValue d \<Rightarrow> d
                                                          | NullishError \<Rightarrow> js ''Unknown error''),
                                responseBody := js '''',
                                responseStatusCode := None\<rparr>\<rparr>)"

text \<open>The \<open>const url\<close> of \<open>handleMakeRequest\<close>: the live field's value if there is a field.\<close>

definition previewUrl :: "App \<Rightarrow> jsstring" where
  "previewUrl a =
     (case urlInput a of
        Some v \<Rightarrow> trim (case v of Some s \<Rightarrow> s | None \<Rightarrow> js '''')
      | None \<Rightarrow> trim (url (state a)))"

definition handleMakeRequest :: "App \<Rightarrow> App" where
  "handleMakeRequest a =
     (if loading (state a) then a
      else
        (let u = previewUrl a
         in if u = [] then
              a\<lparr>state := (state a)\<lparr>status := js ''Error: URL cannot be empty''\<rparr>\<rparr>
            else makeRequest (Some u) a))"

definition clearResults :: "App \<Rightarrow> App" where
  "clearResults a =
     a\<lparr>state := (state a)\<lparr>status := js ''Enter a URL to preview its content'',
                           responseBody := js '''',
                           responseStatusCode := None,
                           url := js ''''\<rparr>,
       urlInput := (case urlInput a of Some v \<Rightarrow> Some (Some (js '''')) | None \<Rightarrow> None)\<rparr>"

subsection \<open>The event loop\<close>

text \<open>
  The handlers run one at a time on the UI event loop. \<open>onChange\<close> and \<open>onEditEnd\<close> of
  the text field call \<open>onUrlChanged\<close>, the two buttons call \<open>handleMakeRequest\<close> and
  \<open>clearResults\<close>, a settled promise resumes \<open>makeRequest\<close>, and the view layer may
  change the text field under the component (\<open>FieldSet\<close>).
\<close>

datatype event =
    UrlChanged jsstring
  | FieldSet "jsstring option option"
  | TapPreview
  | TapClear
  | Settled "error + response"

fun step :: "decoder \<Rightarrow> App \<Rightarrow> event \<Rightarrow> App" where
  "step decode a (UrlChanged text) = onUrlChanged text a"
| "step decode a (FieldSet v) = a\<lparr>urlInput := v\<rparr>"
| "step decode a TapPreview = handleMakeRequest a"
| "step decode a TapClear = clearResults a"
| "step decode a (Settled outcome) = makeRequestSettled decode outcome a"

definition run :: "decoder \<Rightarrow> App \<Rightarrow> event list \<Rightarrow> App" where
  "run decode a evs = foldl (step decode) a evs"

subsection \<open>Auxiliary notions for the statements\<close>

text \<open>
  The text \<open>handleMakeRequest\<close> reads before it trims: \<open>previewUrl\<close> is its trimmed
  value (lemma \<open>previewUrl_rawUrl\<close>).
\<close>

definition rawUrl :: "App \<Rightarrow> jsstring" where
  "rawUrl a =
     (case urlInput a of
        Some v \<Rightarrow> (case v of Some s \<Rightarrow> s | None \<Rightarrow> js '''')
      | None \<Rightarrow> url (state a))"

text \<open>Events that are neither a tap on Clear nor a rejected request.\<close>

fun quietEvent :: "event \<Rightarrow> bool" where
  "quietEvent TapClear = False"
| "quietEvent (Settled (Inl e)) = False"
| "quietEvent (Settled (Inr r)) = True"
| "quietEvent TapPreview = True"
| "quietEvent (UrlChanged newUrl) = True"
| "quietEvent (FieldSet v) = True"

subsection \<open>Concrete inputs\<close>

text \<open>
  A strict decoder for the concrete evaluations: it accepts 7-bit bytes, on which every
  text encoding in use agrees, and throws on anything else.
\<close>

definition asciiDecode :: decoder where
  "asciiDecode b = (if list_all (\<lambda>c. c < 0x80) b then Some (map ucast b) else None)"

definition helloBytes :: "8 word list" where
  "helloBytes = [0x48, 0x65, 0x6C, 0x6C, 0x6F]"

text \<open>The component with a request to \<open>http://a\<close> in flight.\<close>

definition loadingApp :: App where
  "loadingApp =
     \<lparr> state = \<lparr> url = js ''http://a'', status = js ''Loading http://a...'',
                 responseBody = js '''', responseStatusCode = None, loading = True \<rparr>,
       urlInput = Some (Some (js ''http://a'')),
       gets = [js ''http://a''] \<rparr>"

text \<open>The same component after that request resolved with status 200 and body Hello.\<close>

definition completedApp :: App where
  "completedApp =
     makeRequestSettled asciiDecode (Inr (Response 200 (Some helloBytes))) loadingApp"

text \<open>The freshly mounted component with three spaces, or a padded URL, typed into the field.\<close>

definition blankApp :: App where
  "blankApp = initialApp\<lparr>urlInput := Some (Some (js ''   ''))\<rparr>"

definition paddedApp :: App where
  "paddedApp = initialApp\<lparr>urlInput := Some (Some (js ''  http://a ''))\<rparr>"

section \<open>Basic facts\<close>

lemma js_Nil [simp]: "js '''' = []"
  by (simp add: js_def)

lemma dropWhile_all_Nil:
  "(\<forall>c \<in> set (dropWhile P xs). P c) \<longleftrightarrow> dropWhile P xs = []"
proof
  assume h: "\<forall>c \<in> set (dropWhile P xs). P c"
  show "dropWhile P xs = []"
  proof (rule ccontr)
    assume ne: "dropWhile P xs \<noteq> []"
    then have "\<not> P (hd (dropWhile P xs))"
      by (rule hd_dropWhile)
    moreover from ne have "hd (dropWhile P xs) \<in> set (dropWhile P xs)"
      by (rule hd_in_set)
    ultimately show False using h by blast
  qed
next
  assume e: "dropWhile P xs = []"
  show "\<forall>c \<in> set (dropWhile P xs). P c"
    unfolding e by simp
qed

text \<open>The strings that trim to the empty string are exactly the whitespace-only ones.\<close>

lemma trim_Nil_iff: "trim s = [] \<longleftrightarrow> list_all isWhiteSpace s"
proof -
  have "trim s = [] \<longleftrightarrow> (\<forall>c \<in> set (dropWhile isWhiteSpace s). isWhiteSpace c)"
    by (simp add: trim_def)
  also have "\<dots> \<longleftrightarrow> dropWhile isWhiteSpace s = []"
    by (rule dropWhile_all_Nil)
  also have "\<dots> \<longleftrightarrow> list_all isWhiteSpace s"
    by (simp add: list_all_iff)
  finally show ?thesis .
qed

lemma previewUrl_rawUrl: "previewUrl a = trim (rawUrl a)"
  by (simp add: previewUrl_def rawUrl_def split: option.splits)

lemma run_Nil [simp]: "run decode a [] = a"
  by (simp add: run_def)

lemma run_Cons [simp]: "run decode a (e # evs) = run decode (step decode a e) evs"
  by (simp add: run_def)

lemma run_snoc [simp]: "run decode a (evs @ [e]) = step decode (run decode a evs) e"
  by (simp add: run_def)

text \<open>The concrete inputs are states the component reaches from its initial state.\<close>

lemma loadingApp_reachable:
  "run decode initialApp
     [FieldSet (Some (Some (js ''http://a''))), UrlChanged (js ''http://a''), TapPreview]
   = loadingApp"
  by (simp add: initialApp_def initialState_def loadingApp_def onUrlChanged_def
      handleMakeRequest_def previewUrl_def makeRequest_def trim_def isWhiteSpace_def js_def
      Let_def)

lemma completedApp_reachable:
  "run asciiDecode initialApp
     [FieldSet (Some (Some (js ''http://a''))), UrlChanged (js ''http://a''), TapPreview,
      Settled (Inr (Response 200 (Some helloBytes)))]
   = completedApp"
  using loadingApp_reachable [of asciiDecode]
    run_snoc [of asciiDecode initialApp
      "[FieldSet (Some (Some (js ''http://a''))), UrlChanged (js ''http://a''), TapPreview]"
      "Settled (Inr (Response 200 (Some helloBytes)))"]
  by (simp add: completedApp_def del: run_snoc run_Cons)

lemma blankApp_reachable: "run decode initialApp [FieldSet (Some (Some (js ''   '')))] = blankApp"
  by (simp add: blankApp_def)

lemma paddedApp_reachable:
  "run decode initialApp [FieldSet (Some (Some (js ''  http://a '')))] = paddedApp"
  by (simp add: paddedApp_def)

subsection \<open>Requests are only ever added\<close>

lemma gets_step: "\<exists>ys. gets (step decode a e) = gets a @ ys"
proof (cases e)
  case TapPreview
  then show ?thesis
    by (simp add: handleMakeRequest_def makeRequest_def Let_def)
next
  case (Settled outcome)
  then show ?thesis
    by (simp add: makeRequestSettled_def Let_def split: sum.splits)
qed (simp_all add: onUrlChanged_def clearResults_def)

lemma gets_run: "\<exists>ys. gets (run decode a evs) = gets a @ ys"
proof (induction evs arbitrary: a)
  case Nil
  show ?case by simp
next
  case (Cons e evs)
  obtain ys where 1: "gets (step decode a e) = gets a @ ys"
    using gets_step by blast
  obtain zs where 2: "gets (run decode (step decode a e) evs) = gets (step decode a e) @ zs"
    using Cons.IH by blast
  from 1 2 show ?case by simp
qed

lemma gets_run_first:
  assumes "gets (run decode a (e # evs)) = gets a"
  shows "gets (step decode a e) = gets a"
proof -
  obtain ys where 1: "gets (step decode a e) = gets a @ ys"
    using gets_step by blast
  obtain zs where 2: "gets (run decode (step decode a e) evs) = gets (step decode a e) @ zs"
    using gets_run by blast
  from assms 1 2 have "gets a @ ys @ zs = gets a" by simp
  then have "ys = []" by simp
  with 1 show ?thesis by simp
qed

subsection \<open>The response body between events\<close>

lemma responseBody_Settled_Inr:
  "responseBody (state (makeRequestSettled decode (Inr r) a)) \<noteq> []"
  by (simp add: makeRequestSettled_def Let_def js_def)

lemma responseBody_step:
  assumes "quietEvent e" and "gets (step decode a e) = gets a"
    and "responseBody (state a) \<noteq> []"
  shows "responseBody (state (step decode a e)) \<noteq> []"
proof (cases e)
  case (UrlChanged newUrl)
  with assms show ?thesis by (simp add: onUrlChanged_def)
next
  case (FieldSet v)
  with assms show ?thesis by simp
next
  case TapPreview
  with assms show ?thesis
    by (simp add: handleMakeRequest_def makeRequest_def Let_def split: if_splits)
next
  case TapClear
  with assms show ?thesis by simp
next
  case (Settled outcome)
  with assms show ?thesis
    by (cases outcome) (simp_all add: responseBody_Settled_Inr)
qed

lemma responseBody_run:
  assumes "list_all quietEvent evs" and "gets (run decode a evs) = gets a"
    and "responseBody (state a) \<noteq> []"
  shows "responseBody (state (run decode a evs)) \<noteq> []"
  using assms
proof (induction evs arbitrary: a)
  case Nil
  then show ?case by simp
next
  case (Cons e evs)
  have g: "gets (step decode a e) = gets a"
    using Cons.prems(2) by (rule gets_run_first)
  have q: "quietEvent e" and qs: "list_all quietEvent evs"
    using Cons.prems(1) by simp_all
  have b: "responseBody (state (step decode a e)) \<noteq> []"
    using q g Cons.prems(3) by (rule responseBody_step)
  have "gets (run decode (step decode a e) evs) = gets (step decode a e)"
    using Cons.prems(2) g by simp
  with qs b show ?case
    using Cons.IH [of "step decode a e"] by simp
qed

lemma loading_Settled: "\<not> loading (state (makeRequestSettled decode outcome a))"
  by (simp add: makeRequestSettled_def Let_def split: sum.splits)

section \<open>The claims\<close>

subsection \<open>Clear\<close>

text \<open>
  Claim C1, as amended. For every prior state, \<open>clearResults\<close> resets \<open>url\<close>,
  \<open>status\<close>, \<open>responseBody\<close> and \<open>responseStatusCode\<close> to the initial defaults and
  leaves \<open>loading\<close> as it was: the state afterwards is the initial state except for
  \<open>loading\<close>, hence exactly the initial state when no request was in flight (Idle,
  Completed, Failed).
\<close>

theorem clearResults_resets:
  "state (clearResults a) = initialState\<lparr>loading := loading (state a)\<rparr>"
  by (simp add: clearResults_def initialState_def)

text \<open>
  The claim as written also promises \<open>loading = false\<close> after a clear during a request in
  flight. \<open>clearResults\<close> does not write \<open>loading\<close>: from \<open>loadingApp\<close> the result
  still has \<open>loading = true\<close> and is not the initial state.
\<close>

theorem clearResults_loading_counterexample:
  "loading (state (clearResults loadingApp)) \<and> state (clearResults loadingApp) \<noteq> initialState"
  by (simp add: clearResults_def loadingApp_def initialState_def)

text \<open>
  Claim C8. Clearing twice in a row gives the same component (state, text field and issued
  requests) as clearing once.
\<close>

theorem clearResults_idempotent: "clearResults (clearResults a) = clearResults a"
  by (simp add: clearResults_def split: option.splits)

text \<open>
  Claim C9. \<open>clearResults\<close> never writes \<open>loading\<close>: its value after the clear is its
  value before, so a clear during a request in flight leaves \<open>loading = true\<close>; nor does it
  touch the requests issued.
\<close>

theorem clearResults_keeps_loading:
  "loading (state (clearResults a)) = loading (state a) \<and> gets (clearResults a) = gets a"
  by (simp add: clearResults_def)

subsection \<open>Preview\<close>

text \<open>
  Claim C3. While \<open>loading\<close> is true, a tap on Preview changes nothing: every field of the
  state is as before and no request is issued (\<open>gets\<close> is unchanged).
\<close>

theorem handleMakeRequest_while_loading:
  "loading (state a) \<Longrightarrow> handleMakeRequest a = a"
  by (simp add: handleMakeRequest_def)

theorem handleMakeRequest_while_loading_witness:
  "loading (state loadingApp) \<and> handleMakeRequest loadingApp = loadingApp"
proof -
  have h: "loading (state loadingApp)"
    by (simp add: loadingApp_def)
  from h handleMakeRequest_while_loading [OF h] show ?thesis by simp
qed

text \<open>
  Claim C4. When the URL read by the handler trims to the empty string (whitespace-only
  input included, see \<open>trim_Nil_iff\<close>) and \<open>loading\<close> is false, a tap on Preview sets
  \<open>status\<close> to the empty-URL error and changes nothing else: no GET is issued and
  \<open>loading\<close> stays false.
\<close>

theorem handleMakeRequest_empty_url:
  assumes "\<not> loading (state a)" and "trim (rawUrl a) = []"
  shows "handleMakeRequest a
           = a\<lparr>state := (state a)\<lparr>status := js ''Error: URL cannot be empty''\<rparr>\<rparr>
         \<and> gets (handleMakeRequest a) = gets a
         \<and> \<not> loading (state (handleMakeRequest a))"
  using assms by (simp add: handleMakeRequest_def previewUrl_rawUrl)

theorem handleMakeRequest_empty_url_witness:
  "\<not> loading (state blankApp) \<and> trim (rawUrl blankApp) = []
   \<and> status (state (handleMakeRequest blankApp)) = js ''Error: URL cannot be empty''
   \<and> gets (handleMakeRequest blankApp) = []"
proof -
  have h1: "\<not> loading (state blankApp)"
    by (simp add: blankApp_def initialApp_def initialState_def)
  have h2: "trim (rawUrl blankApp) = []"
    by (simp add: blankApp_def initialApp_def rawUrl_def trim_def isWhiteSpace_def js_def)
  have g: "gets blankApp = []"
    by (simp add: blankApp_def initialApp_def)
  from handleMakeRequest_empty_url [OF h1 h2] h1 h2 g show ?thesis by simp
qed

text \<open>
  Claim C6. When the trimmed URL is not empty and \<open>loading\<close> is false, a tap on Preview
  sets \<open>loading\<close> to true, \<open>status\<close> to \<open>Loading {url}...\<close> for the trimmed URL,
  \<open>responseBody\<close> to the empty string and \<open>responseStatusCode\<close> to absent, and issues
  exactly one GET, to the trimmed URL; this is the component when the handler returns, the
  request still unsettled.
\<close>

theorem handleMakeRequest_starts_request:
  assumes "\<not> loading (state a)" and "trim (rawUrl a) \<noteq> []"
  shows "handleMakeRequest a =
           a\<lparr>state := (state a)\<lparr>loading := True,
                                  status := js ''Loading '' @ trim (rawUrl a) @ js ''...'',
                                  responseBody := js '''',
                                  responseStatusCode := None\<rparr>,
             gets := gets a @ [trim (rawUrl a)]\<rparr>"
  using assms by (simp add: handleMakeRequest_def previewUrl_rawUrl makeRequest_def Let_def)

theorem handleMakeRequest_starts_request_witness:
  "\<not> loading (state paddedApp) \<and> trim (rawUrl paddedApp) = js ''http://a''
   \<and> js ''http://a'' \<noteq> []
   \<and> loading (state (handleMakeRequest paddedApp))
   \<and> status (state (handleMakeRequest paddedApp)) = js ''Loading http://a...''
   \<and> responseBody (state (handleMakeRequest paddedApp)) = []
   \<and> responseStatusCode (state (handleMakeRequest paddedApp)) = None
   \<and> gets (handleMakeRequest paddedApp) = [js ''http://a'']"
proof -
  have h1: "\<not> loading (state paddedApp)"
    by (simp add: paddedApp_def initialApp_def initialState_def)
  have t: "trim (rawUrl paddedApp) = js ''http://a''"
    by (simp add: paddedApp_def initialApp_def rawUrl_def trim_def isWhiteSpace_def js_def)
  have n: "js ''http://a'' \<noteq> []"
    by (simp add: js_def)
  have h2: "trim (rawUrl paddedApp) \<noteq> []"
    using t n by simp
  have g: "gets paddedApp = []"
    by (simp add: paddedApp_def initialApp_def)
  have l: "js ''Loading '' @ js ''http://a'' @ js ''...'' = js ''Loading http://a...''"
    by (simp add: js_def)
  from handleMakeRequest_starts_request [OF h1 h2] h1 t n g l show ?thesis by simp
qed

subsection \<open>Completion\<close>

text \<open>
  Claim C2. When the GET resolves with a response, the continuation sets \<open>status\<close> to the
  success message, \<open>responseStatusCode\<close> to the response's code (whatever it is) and
  \<open>loading\<close> to false, and sets \<open>responseBody\<close> to the decoded text if decoding gives a
  non-empty text, to \<open>[No content]\<close> if it gives the empty text or the body is absent, and
  to \<open>[Binary data, N bytes]\<close>, \<open>N\<close> the number of bytes, if decoding throws.
\<close>

theorem makeRequestSettled_success:
  "(let s' = state (makeRequestSettled decode (Inr (Response code b)) a) in
      status s' = js ''Content loaded successfully''
      \<and> responseStatusCode s' = Some code
      \<and> loading s' = False
      \<and> (\<forall>bytes t. b = Some bytes \<and> decode bytes = Some t \<and> t \<noteq> [] \<longrightarrow> responseBody s' = t)
      \<and> (\<forall>bytes. b = Some bytes \<and> decode bytes = Some [] \<longrightarrow>
            responseBody s' = js ''[No content]'')
      \<and> (b = None \<longrightarrow> responseBody s' = js ''[No content]'')
      \<and> (\<forall>bytes. b = Some bytes \<and> decode bytes = None \<longrightarrow>
            responseBody s' = js ''[Binary data, '' @ showNat (length bytes) @ js '' bytes]''))"
  by (auto simp: makeRequestSettled_def bodyTextOf_def Let_def js_def split: option.splits)

text \<open>
  At the inputs of the specification's examples: 200 with the bytes of Hello, 404 with an
  empty and with an absent body, and 37 bytes that are not text.
\<close>

theorem makeRequestSettled_success_witness:
  "asciiDecode helloBytes = Some (js ''Hello'') \<and> js ''Hello'' \<noteq> []
   \<and> state (makeRequestSettled asciiDecode (Inr (Response 200 (Some helloBytes))) loadingApp)
       = (state loadingApp)\<lparr>loading := False, status := js ''Content loaded successfully'',
                             responseStatusCode := Some 200, responseBody := js ''Hello''\<rparr>
   \<and> asciiDecode [] = Some []
   \<and> responseBody (state (makeRequestSettled asciiDecode (Inr (Response 404 (Some []))) loadingApp))
       = js ''[No content]''
   \<and> responseBody (state (makeRequestSettled asciiDecode (Inr (Response 404 None)) loadingApp))
       = js ''[No content]''
   \<and> responseStatusCode (state (makeRequestSettled asciiDecode (Inr (Response 404 None)) loadingApp))
       = Some 404
   \<and> asciiDecode (replicate 37 0xFF) = None
   \<and> responseBody (state (makeRequestSettled asciiDecode
                             (Inr (Response 200 (Some (replicate 37 0xFF)))) loadingApp))
       = js ''[Binary data, 37 bytes]''"
proof -
  have d1: "asciiDecode helloBytes = Some (js ''Hello'')"
    by (simp add: asciiDecode_def helloBytes_def js_def)
  have n1: "js ''Hello'' \<noteq> []"
    by (simp add: js_def)
  have d2: "asciiDecode [] = Some []"
    by (simp add: asciiDecode_def)
  have d3: "asciiDecode (replicate 37 0xFF) = None"
    by (simp add: asciiDecode_def list_all_iff)
  have p: "js ''[Binary data, '' @ showNat (length (replicate 37 (0xFF :: 8 word))) @ js '' bytes]''
           = js ''[Binary data, 37 bytes]''"
    by (simp add: showNat.simps digit_def js_def)
  have u: "url (state (makeRequestSettled asciiDecode (Inr (Response 200 (Some helloBytes))) loadingApp))
           = url (state loadingApp)"
    by (simp add: makeRequestSettled_def Let_def)
  note A = makeRequestSettled_success [of asciiDecode 200 "Some helloBytes" loadingApp]
  note B = makeRequestSettled_success [of asciiDecode 404 "Some []" loadingApp]
  note C = makeRequestSettled_success [of asciiDecode 404 None loadingApp]
  note D = makeRequestSettled_success [of asciiDecode 200 "Some (replicate 37 0xFF)" loadingApp]
  have a: "state (makeRequestSettled asciiDecode (Inr (Response 200 (Some helloBytes))) loadingApp)
       = (state loadingApp)\<lparr>loading := False, status := js ''Content loaded successfully'',
                             responseStatusCode := Some 200, responseBody := js ''Hello''\<rparr>"
    using A d1 n1 u by (simp add: Let_def loadingApp_def)
  have b: "responseBody (state (makeRequestSettled asciiDecode (Inr (Response 404 (Some []))) loadingApp))
       = js ''[No content]''"
    using B d2 by (simp add: Let_def)
  have c: "responseBody (state (makeRequestSettled asciiDecode (Inr (Response 404 None)) loadingApp))
       = js ''[No content]''
     \<and> responseStatusCode (state (makeRequestSettled asciiDecode (Inr (Response 404 None)) loadingApp))
       = Some 404"
    using C by (simp add: Let_def)
  have d: "responseBody (state (makeRequestSettled asciiDecode
                                  (Inr (Response 200 (Some (replicate 37 0xFF)))) loadingApp))
       = js ''[Binary data, 37 bytes]''"
    using D d3 p by (simp add: Let_def)
  from a b c d d1 n1 d2 d3 show ?thesis by simp
qed

text \<open>
  Claim C5. When the GET fails with a transport error, the continuation leaves
  \<open>loading\<close> false, \<open>responseStatusCode\<close> absent and \<open>responseBody\<close> empty, and sets
  \<open>status\<close> to \<open>Error: \<close> followed by the error's description (by \<open>Unknown error\<close>
  when the rejection value is \<open>null\<close> or \<open>undefined\<close>).
\<close>

theorem makeRequestSettled_failure:
  "(let s' = state (makeRequestSettled decode (Inl e) a) in
      loading s' = False \<and> responseStatusCode s' = None \<and> responseBody s' = js '''')
   \<and> status (state (makeRequestSettled decode (Inl (ErrorValue d)) a)) = js ''Error: '' @ d
   \<and> status (state (makeRequestSettled decode (Inl NullishError) a)) = js ''Error: Unknown error''"
  by (simp add: makeRequestSettled_def Let_def js_def)

text \<open>
  Claim C7. Every way a preview ends leaves \<open>loading\<close> false: the settlement of a GET,
  resolved (whatever the decoding gives) or rejected, whatever events came before it; and the
  rejection of an empty input, which is only reached when \<open>loading\<close> is false.
\<close>

theorem loading_false_after_completion:
  "\<not> loading (state (run decode a (evs @ [Settled outcome])))
   \<and> (\<not> loading (state a) \<and> trim (rawUrl a) = [] \<longrightarrow> \<not> loading (state (handleMakeRequest a)))"
  by (simp add: loading_Settled handleMakeRequest_def previewUrl_rawUrl)

theorem loading_false_after_completion_witness:
  "\<not> loading (state blankApp) \<and> trim (rawUrl blankApp) = []
   \<and> \<not> loading (state (handleMakeRequest blankApp))
   \<and> \<not> loading (state (run asciiDecode loadingApp [TapClear, Settled (Inl NullishError)]))"
proof -
  have h1: "\<not> loading (state blankApp)"
    by (simp add: blankApp_def initialApp_def initialState_def)
  have h2: "trim (rawUrl blankApp) = []"
    by (simp add: blankApp_def initialApp_def rawUrl_def trim_def isWhiteSpace_def js_def)
  from loading_false_after_completion [of asciiDecode loadingApp "[TapClear]" "Inl NullishError"]
    loading_false_after_completion [of asciiDecode blankApp "[]" "Inl NullishError"] h1 h2
  show ?thesis by simp
qed

text \<open>
  Claim C10, as amended. Right after a GET resolves, \<open>responseBody\<close> is not empty: it is
  the decoded text, \<open>[No content]\<close> or the binary-data placeholder. It stays non-empty
  through any later events among which there is no tap on Clear, no rejected request and no
  new request issued; so an empty \<open>responseBody\<close> implies that no request has resolved
  since the last clear, failure or start of a request.
\<close>

theorem responseBody_nonempty_after_success:
  "(let a' = makeRequestSettled decode (Inr r) a; s' = state a' in
      responseBody s' \<noteq> []
      \<and> (responseBody s' = js ''[No content]''
         \<or> (\<exists>bytes. body r = Some bytes
               \<and> (decode bytes = Some (responseBody s')
                  \<or> decode bytes = None
                    \<and> responseBody s'
                        = js ''[Binary data, '' @ showNat (length bytes) @ js '' bytes]'')))
      \<and> (list_all quietEvent evs \<and> gets (run decode a' evs) = gets a'
           \<longrightarrow> responseBody (state (run decode a' evs)) \<noteq> []))"
proof -
  let ?a = "makeRequestSettled decode (Inr r) a"
  have 1: "responseBody (state ?a) \<noteq> []"
    by (rule responseBody_Settled_Inr)
  have 2: "responseBody (state ?a) = js ''[No content]''
      \<or> (\<exists>bytes. body r = Some bytes
               \<and> (decode bytes = Some (responseBody (state ?a))
                  \<or> decode bytes = None
                    \<and> responseBody (state ?a)
                        = js ''[Binary data, '' @ showNat (length bytes) @ js '' bytes]''))"
    by (auto simp: makeRequestSettled_def bodyTextOf_def Let_def js_def split: option.splits)
  have 3: "list_all quietEvent evs \<and> gets (run decode ?a evs) = gets ?a
           \<longrightarrow> responseBody (state (run decode ?a evs)) \<noteq> []"
    using responseBody_run [of evs decode ?a] 1 by blast
  from 1 2 3 show ?thesis by (simp add: Let_def)
qed

theorem responseBody_nonempty_after_success_witness:
  "list_all quietEvent [UrlChanged (js ''x''), FieldSet (Some (Some (js '' ''))), TapPreview]
   \<and> gets (run asciiDecode completedApp
        [UrlChanged (js ''x''), FieldSet (Some (Some (js '' ''))), TapPreview]) = gets completedApp
   \<and> responseBody (state (run asciiDecode completedApp
        [UrlChanged (js ''x''), FieldSet (Some (Some (js '' ''))), TapPreview])) \<noteq> []"
proof -
  let ?evs = "[UrlChanged (js ''x''), FieldSet (Some (Some (js '' ''))), TapPreview]"
  have q: "list_all quietEvent ?evs" by simp
  have g: "gets (run asciiDecode completedApp ?evs) = gets completedApp"
    by (simp add: completedApp_def makeRequestSettled_def Let_def loadingApp_def onUrlChanged_def
        handleMakeRequest_def previewUrl_def trim_def isWhiteSpace_def js_def)
  from responseBody_nonempty_after_success
         [of asciiDecode "Response 200 (Some helloBytes)" loadingApp ?evs] q g
  show ?thesis by (simp add: Let_def completedApp_def)
qed

text \<open>
  The claim as written lets only a clear or a failure empty \<open>responseBody\<close>. Starting a
  request empties it too: after the request of \<open>completedApp\<close> has resolved, a tap on
  Preview, which is neither a clear nor a failure, leaves \<open>responseBody\<close> empty.
\<close>

theorem responseBody_empty_after_success_counterexample:
  "list_all quietEvent [TapPreview]
   \<and> responseBody (state (run asciiDecode completedApp [TapPreview])) = []"
  by (simp add: completedApp_def makeRequestSettled_def Let_def loadingApp_def
      handleMakeRequest_def previewUrl_def makeRequest_def trim_def isWhiteSpace_def js_def)

end
